theory Spec2Isabelle
  imports Complex_Main "HOL-Library.Sublist" "HOL-Library.AList" "HOL-Library.Log_Nat"
begin

section \<open>Python values and primitives\<close>

text \<open>
  The surf-risk analyzer is Python. A Python int is an \<open>int\<close>. A Python float (and a
  NumPy \<open>float64\<close>) is an IEEE binary64 number, modelled as the \<open>real\<close> it denotes, and
  every float operation of the source rounds its exact result to the nearest binary64
  number. Strings are \<open>string\<close>, compared byte by byte. Every exception of the source
  is a value of \<open>py_error\<close>, and a function that can raise returns \<open>py_error + 'a\<close>
  with \<open>Inl\<close> for the exception.
\<close>

datatype py_error =
    ZeroDivisionError
  | ValueError
  | KeyError
  | IndexError
  | AttributeError
  | ModelError string
  | DatabaseError string

subsection \<open>Binary64 arithmetic\<close>

text \<open>
  Rounding to the nearest integer, a tie going to the even neighbour.
\<close>

definition round_half_even :: "real \<Rightarrow> int" where
  "round_half_even x =
     (let f = \<lfloor>x\<rfloor>; d = x - of_int f
      in if d < 1 / 2 then f else if 1 / 2 < d then f + 1 else if even f then f else f + 1)"

text \<open>
  The binary exponent of a positive number \<open>a\<close>: the \<open>e\<close> with \<open>2^e \<le> a < 2^(e+1)\<close>.
\<close>

definition exponent :: "real \<Rightarrow> int" where
  "exponent a = (if 1 \<le> a then bitlen \<lfloor>a\<rfloor> - 1 else - bitlen (\<lceil>1 / a\<rceil> - 1))"

text \<open>
  \<open>fl x\<close> is the binary64 number nearest to \<open>x\<close>, a tie going to the even significand:
  53 significant bits, and below \<open>2^-1022\<close> the fixed spacing \<open>2^-1074\<close> of the
  subnormal numbers. Overflow to infinity is left out: no quantity of the scoring
  pipeline comes near \<open>2^1024\<close>. A float literal of the source, such as \<open>3.33\<close>, is
  \<open>fl 3.33\<close>, and an int meeting a float in an operation is converted by \<open>fl\<close> too.
\<close>

definition fl :: "real \<Rightarrow> real" where
  "fl x =
     (if x = 0 then 0
      else let k = 52 - max (exponent \<bar>x\<bar>) (- 1022)
           in if 0 \<le> k then of_int (round_half_even (x * 2 ^ nat k)) / 2 ^ nat k
              else of_int (round_half_even (x / 2 ^ nat (- k))) * 2 ^ nat (- k))"

definition fadd :: "real \<Rightarrow> real \<Rightarrow> real" where
  "fadd x y = fl (x + y)"

definition fsub :: "real \<Rightarrow> real \<Rightarrow> real" where
  "fsub x y = fl (x - y)"

definition fmul :: "real \<Rightarrow> real \<Rightarrow> real" where
  "fmul x y = fl (x * y)"

text \<open>
  \<open>a / b\<close> on Python numbers raises on a zero divisor and is correctly rounded
  otherwise, for two ints as for two floats.
\<close>

definition py_truediv :: "real \<Rightarrow> real \<Rightarrow> py_error + real" where
  "py_truediv a b = (if b = 0 then Inl ZeroDivisionError else Inr (fl (a / b)))"

text \<open>
  \<open>round(x, 2)\<close> on a Python float is correctly rounded: the exact value of \<open>x\<close> goes to
  the nearest multiple of one hundredth, a tie to the even one, and the result is the
  float nearest to that decimal. On an int it returns the int, as this does.
\<close>

definition py_round2 :: "real \<Rightarrow> real" where
  "py_round2 x = fl (of_int (round_half_even (x * 100)) / 100)"

text \<open>
  \<open>round(x, 2)\<close> on a NumPy \<open>float64\<close> is NumPy's rounding: multiply by 100, round to
  the nearest integer (ties to even), divide by 100, each step in binary64.
\<close>

definition np_round2 :: "real \<Rightarrow> real" where
  "np_round2 x = fl (of_int (round_half_even (fmul x 100)) / 100)"

text \<open>\<open>max(xs)\<close> of a list raises \<open>ValueError\<close> on the empty list.\<close>

fun py_max :: "int list \<Rightarrow> py_error + int" where
  "py_max [] = Inl ValueError"
| "py_max (x # xs) = Inr (fold max xs x)"

text \<open>A dict with string keys is an association list in insertion order.\<close>

definition py_getitem :: "(string \<times> 'v) list \<Rightarrow> string \<Rightarrow> py_error + 'v" where
  "py_getitem d k = (case map_of d k of None \<Rightarrow> Inl KeyError | Some v \<Rightarrow> Inr v)"

definition py_get :: "(string \<times> 'v) list \<Rightarrow> string \<Rightarrow> 'v \<Rightarrow> 'v" where
  "py_get d k dflt = (case map_of d k of None \<Rightarrow> dflt | Some v \<Rightarrow> v)"

section \<open>calculate_skill_risk.py: the skill-stratified threshold engine\<close>

record risk_data =
  total :: int
  advanced :: int
  beginner :: int
  intermediate :: int

definition RISK_DATA :: "(string \<times> risk_data) list" where
  "RISK_DATA =
    [(''Hikkaduwa'', \<lparr>total = 425, advanced = 20, beginner = 142, intermediate = 50\<rparr>),
     (''Matara'', \<lparr>total = 324, advanced = 5, beginner = 124, intermediate = 14\<rparr>),
     (''Trincomalee'', \<lparr>total = 298, advanced = 5, beginner = 74, intermediate = 19\<rparr>),
     (''Arugam Bay'', \<lparr>total = 293, advanced = 50, beginner = 69, intermediate = 34\<rparr>),
     (''Unawatuna'', \<lparr>total = 292, advanced = 45, beginner = 102, intermediate = 33\<rparr>),
     (''Midigama'', \<lparr>total = 256, advanced = 44, beginner = 63, intermediate = 68\<rparr>),
     (''Point Pedro'', \<lparr>total = 239, advanced = 0, beginner = 82, intermediate = 0\<rparr>),
     (''Ahangama'', \<lparr>total = 237, advanced = 31, beginner = 66, intermediate = 54\<rparr>),
     (''Mirissa'', \<lparr>total = 224, advanced = 32, beginner = 55, intermediate = 81\<rparr>),
     (''Kalpitiya'', \<lparr>total = 210, advanced = 0, beginner = 73, intermediate = 0\<rparr>),
     (''Thalpe'', \<lparr>total = 209, advanced = 40, beginner = 62, intermediate = 23\<rparr>),
     (''Weligama'', \<lparr>total = 200, advanced = 27, beginner = 87, intermediate = 18\<rparr>)]"

record thresholds =
  low :: real
  medium :: real

definition SKILL_THRESHOLDS :: "(string \<times> thresholds) list" where
  "SKILL_THRESHOLDS =
    [(''beginner'', \<lparr>low = fl 5.0, medium = fl 6.5\<rparr>),
     (''intermediate'', \<lparr>low = fl 6.0, medium = fl 7.2\<rparr>),
     (''advanced'', \<lparr>low = fl 7.0, medium = fl 8.0\<rparr>)]"

text \<open>
  \<open>calculate_risk_score(incidents_count, max_incidents, skill_multiplier)\<close>: the early
  return on a zero maximum, then the normalisation, the multiplier, the cap at 10 and
  the rounding to two decimals.
\<close>

definition calculate_risk_score :: "int \<Rightarrow> int \<Rightarrow> real \<Rightarrow> py_error + real" where
  "calculate_risk_score incidents_count max_incidents skill_multiplier =
     (if max_incidents = 0 then Inr 0
      else case py_truediv (of_int incidents_count) (of_int max_incidents) of
          Inl e \<Rightarrow> Inl e
        | Inr q \<Rightarrow>
            (let base_score = fmul q 10;
                 risk_score = fmul base_score skill_multiplier;
                 risk_score = min 10 risk_score
             in Inr (py_round2 risk_score)))"

text \<open>
  \<open>get_risk_level_and_flag(score, skill_level)\<close>. The default of \<open>dict.get\<close> is
  evaluated first, as Python evaluates arguments before the call.
\<close>

definition get_risk_level_and_flag :: "real \<Rightarrow> string \<Rightarrow> py_error + (string \<times> string)" where
  "get_risk_level_and_flag score skill_level =
     (case py_getitem SKILL_THRESHOLDS ''beginner'' of
        Inl e \<Rightarrow> Inl e
      | Inr dflt \<Rightarrow>
          (let thresholds = py_get SKILL_THRESHOLDS skill_level dflt
           in if score \<le> low thresholds then Inr (''Low'', ''green'')
              else if score \<le> medium thresholds then Inr (''Medium'', ''yellow'')
              else Inr (''High'', ''red'')))"

record risk_entry =
  score :: real
  level :: string
  flag :: string

record skill_entry = risk_entry +
  incidents :: int

record spot_result =
  spot_name_r :: string
  total_incidents_r :: int
  overall_r :: risk_entry
  beginner_r :: skill_entry
  intermediate_r :: skill_entry
  advanced_r :: skill_entry

text \<open>
  The weighted average of the loop body of \<open>calculate_skill_based_risks\<close> and its
  entry of the result: the level and the flag come from the unrounded score under the
  beginner thresholds, the stored score is rounded.
\<close>

definition overall_score :: "real \<Rightarrow> real \<Rightarrow> real \<Rightarrow> real" where
  "overall_score beginner_score intermediate_score advanced_score =
     fadd (fadd (fmul beginner_score (fl 0.5)) (fmul intermediate_score (fl 0.3)))
          (fmul advanced_score (fl 0.2))"

definition overall_entry :: "real \<Rightarrow> real \<Rightarrow> real \<Rightarrow> py_error + risk_entry" where
  "overall_entry beginner_score intermediate_score advanced_score =
     (let overall = overall_score beginner_score intermediate_score advanced_score
      in case get_risk_level_and_flag overall ''beginner'' of
           Inl e \<Rightarrow> Inl e
         | Inr (overall_level, overall_flag) \<Rightarrow>
             Inr \<lparr>score = py_round2 overall, level = overall_level, flag = overall_flag\<rparr>)"

text \<open>
  The body of the loop over \<open>RISK_DATA.items()\<close>, for one spot: the three scores,
  the three levels and flags, the overall entry and the result dict. The lines the loop
  prints are left out.
\<close>

definition spot_risks :: "int \<Rightarrow> int \<Rightarrow> int \<Rightarrow> string \<times> risk_data \<Rightarrow> py_error + spot_result" where
  "spot_risks max_beginner max_intermediate max_advanced item =
     (let name = fst item; data = snd item;
          beginner_multiplier = fl 1.5;
          intermediate_multiplier = fl 1.0;
          advanced_multiplier = fl 0.7
      in case calculate_risk_score (beginner data) max_beginner beginner_multiplier of
           Inl e \<Rightarrow> Inl e
         | Inr beginner_score \<Rightarrow>
        (case calculate_risk_score (intermediate data) max_intermediate intermediate_multiplier of
           Inl e \<Rightarrow> Inl e
         | Inr intermediate_score \<Rightarrow>
        (case calculate_risk_score (advanced data) max_advanced advanced_multiplier of
           Inl e \<Rightarrow> Inl e
         | Inr advanced_score \<Rightarrow>
        (case get_risk_level_and_flag beginner_score ''beginner'' of
           Inl e \<Rightarrow> Inl e
         | Inr (beginner_level, beginner_flag) \<Rightarrow>
        (case get_risk_level_and_flag intermediate_score ''intermediate'' of
           Inl e \<Rightarrow> Inl e
         | Inr (intermediate_level, intermediate_flag) \<Rightarrow>
        (case get_risk_level_and_flag advanced_score ''advanced'' of
           Inl e \<Rightarrow> Inl e
         | Inr (advanced_level, advanced_flag) \<Rightarrow>
        (case overall_entry beginner_score intermediate_score advanced_score of
           Inl e \<Rightarrow> Inl e
         | Inr ov \<Rightarrow>
             Inr \<lparr>spot_name_r = name, total_incidents_r = total data, overall_r = ov,
                  beginner_r = \<lparr>score = beginner_score, level = beginner_level,
                                 flag = beginner_flag, incidents = beginner data\<rparr>,
                  intermediate_r = \<lparr>score = intermediate_score, level = intermediate_level,
                                     flag = intermediate_flag, incidents = intermediate data\<rparr>,
                  advanced_r = \<lparr>score = advanced_score, level = advanced_level,
                                 flag = advanced_flag, incidents = advanced data\<rparr>\<rparr>)))))))"

fun spot_loop :: "int \<Rightarrow> int \<Rightarrow> int \<Rightarrow> (string \<times> risk_data) list \<Rightarrow> spot_result list
    \<Rightarrow> py_error + spot_result list" where
  "spot_loop mb mi ma [] results = Inr results"
| "spot_loop mb mi ma (item # items) results =
     (case spot_risks mb mi ma item of
        Inl e \<Rightarrow> Inl e
      | Inr r \<Rightarrow> spot_loop mb mi ma items (results @ [r]))"

text \<open>\<open>calculate_skill_based_risks()\<close> over a table of incident counts.\<close>

definition skill_based_risks_of :: "(string \<times> risk_data) list \<Rightarrow> py_error + spot_result list" where
  "skill_based_risks_of table =
     (case py_max (map (\<lambda>item. beginner (snd item)) table) of
        Inl e \<Rightarrow> Inl e
      | Inr max_beginner \<Rightarrow>
     (case py_max (map (\<lambda>item. intermediate (snd item)) table) of
        Inl e \<Rightarrow> Inl e
      | Inr max_intermediate \<Rightarrow>
     (case py_max (map (\<lambda>item. advanced (snd item)) table) of
        Inl e \<Rightarrow> Inl e
      | Inr max_advanced \<Rightarrow>
          spot_loop max_beginner max_intermediate max_advanced table [])))"

definition calculate_skill_based_risks :: "py_error + spot_result list" where
  "calculate_skill_based_risks = skill_based_risks_of RISK_DATA"

section \<open>predict_risk.py: features, score synthesis and the batch updater\<close>

text \<open>
  A MongoDB document is a Python dict from field names to BSON values. A collection is
  the list of its documents, and the three collections of the module form the database.
\<close>

datatype bson = Str string | Num int | Dbl real | Date int | ObjectId nat | Null

type_synonym doc = "(string \<times> bson) list"

record database =
  incidents_collection :: "doc list"
  surf_spots_collection :: "doc list"
  hazard_reports_collection :: "doc list"

text \<open>
  \<open>datetime.now()\<close>: the instant in seconds and its calendar month. One scoring run
  reads the clock at a single instant.
\<close>

record clock =
  now :: int
  now_month :: int

definition one_day :: int where
  "one_day = 86400"

text \<open>\<open>d.get(k)\<close>: Python's \<open>None\<close> for a missing key is BSON's null.\<close>

definition doc_get :: "doc \<Rightarrow> string \<Rightarrow> bson" where
  "doc_get d k = py_get d k Null"

text \<open>Truthiness of a value, as \<open>if v\<close> tests it.\<close>

fun truthy :: "bson \<Rightarrow> bool" where
  "truthy (Str s) = (s \<noteq> [])"
| "truthy (Num n) = (n \<noteq> 0)"
| "truthy (Dbl x) = (x \<noteq> 0)"
| "truthy (Date t) = True"
| "truthy (ObjectId i) = True"
| "truthy Null = False"

text \<open>\<open>str.lower()\<close> on ASCII text; any other value has no such method.\<close>

definition lower_char :: "char \<Rightarrow> char" where
  "lower_char c =
     (let n = (of_char c :: nat) in if 65 \<le> n \<and> n \<le> 90 then char_of (n + 32) else c)"

fun py_lower :: "bson \<Rightarrow> py_error + string" where
  "py_lower (Str s) = Inr (map lower_char s)"
| "py_lower v = Inl AttributeError"

fun lower_all :: "bson list \<Rightarrow> py_error + string list" where
  "lower_all [] = Inr []"
| "lower_all (t # ts) =
     (case py_lower t of
        Inl e \<Rightarrow> Inl e
      | Inr l \<Rightarrow> (case lower_all ts of Inl e \<Rightarrow> Inl e | Inr ls \<Rightarrow> Inr (l # ls)))"

text \<open>\<open>sum(1 for x in xs if p(x))\<close>.\<close>

definition count_if :: "('a \<Rightarrow> bool) \<Rightarrow> 'a list \<Rightarrow> int" where
  "count_if p xs = int (length (filter p xs))"

text \<open>
  The queries of the module. An equality condition holds when the field is present with
  that value (a null condition also when the field is missing); \<open>$gte\<close> against a
  date holds for a date field at or after it; \<open>$ne\<close> holds also when the field is
  missing. \<open>find_one\<close> returns the first match.
\<close>

definition field_is :: "string \<Rightarrow> bson \<Rightarrow> doc \<Rightarrow> bool" where
  "field_is k v d =
     (if v = Null then map_of d k = None \<or> map_of d k = Some Null else map_of d k = Some v)"

definition find_one :: "(doc \<Rightarrow> bool) \<Rightarrow> doc list \<Rightarrow> doc option" where
  "find_one q ds = (case filter q ds of [] \<Rightarrow> None | d # rest \<Rightarrow> Some d)"

definition recent_hazard_query :: "bson \<Rightarrow> int \<Rightarrow> doc \<Rightarrow> bool" where
  "recent_hazard_query spot_id yesterday h =
     (field_is ''surfSpot'' spot_id h
      \<and> (case map_of h ''reportDate'' of Some (Date t) \<Rightarrow> yesterday \<le> t | _ \<Rightarrow> False)
      \<and> map_of h ''status'' \<noteq> Some (Str ''rejected''))"

text \<open>
  The loop over \<open>recent_hazards\<close> that accumulates \<open>recent_hazard_boost\<close>. The boost
  is a multiple of one half, so below \<open>2^52\<close> these additions are exact in binary64, as
  they are for Python ints, and they are written exactly.
\<close>

fun hazard_loop :: "doc list \<Rightarrow> real \<Rightarrow> real" where
  "hazard_loop [] recent_hazard_boost = recent_hazard_boost"
| "hazard_loop (hazard # hazards) recent_hazard_boost =
     hazard_loop hazards
       (if doc_get hazard ''severity'' = Str ''high'' then recent_hazard_boost + 2
        else if doc_get hazard ''severity'' = Str ''medium'' then recent_hazard_boost + 1
        else recent_hazard_boost + 0.5)"

text \<open>
  The boost of a spot: 0 when \<open>find_one\<close> finds no document (or a falsy, empty one),
  otherwise the loop over the spot's recent, not rejected hazard reports.
\<close>

definition recent_boost :: "database \<Rightarrow> clock \<Rightarrow> bson \<Rightarrow> py_error + real" where
  "recent_boost db clk spot_name =
     (let yesterday = now clk - one_day;
          surf_spot = find_one (field_is ''name'' spot_name) (surf_spots_collection db)
      in case surf_spot of
           None \<Rightarrow> Inr 0
         | Some s \<Rightarrow>
             if s = [] then Inr 0
             else (case py_getitem s ''_id'' of
                     Inl e \<Rightarrow> Inl e
                   | Inr spot_id \<Rightarrow>
                       Inr (hazard_loop
                              (filter (recent_hazard_query spot_id yesterday)
                                 (hazard_reports_collection db)) 0)))"

record features =
  total_incidents :: real
  fatal_count :: int
  severe_count :: int
  moderate_count :: int
  drowning_count :: int
  reef_cut_count :: int
  collision_count :: int
  rip_current_count :: int
  is_peak_season :: int
  incidents_per_year :: real

text \<open>\<open>current_month in peak_months\<close>: Python compares 6 and 6.0 equal.\<close>

definition month_in :: "int \<Rightarrow> bson list \<Rightarrow> bool" where
  "month_in m months = (Num m \<in> set months \<or> Dbl (of_int m) \<in> set months)"

text \<open>
  \<open>calculate_spot_features(spot_name)\<close>, in the order the source evaluates. The name
  is the value the caller passes: a string from the request, or the \<open>name\<close> field of a
  registry document in the batch. \<open>total_incidents\<close> adds an int and five times the
  boost, exact like the boost itself; \<open>incidents_per_year\<close> is a rounded quotient.
\<close>

definition calculate_spot_features :: "database \<Rightarrow> clock \<Rightarrow> bson \<Rightarrow> py_error + (features \<times> real)" where
  "calculate_spot_features db clk spot_name =
     (let spot_incidents = filter (field_is ''site'' spot_name) (incidents_collection db);
          total = int (length spot_incidents);
          fatal = count_if (\<lambda>i. doc_get i ''severity'' = Str ''fatal'') spot_incidents;
          severe = count_if (\<lambda>i. doc_get i ''severity'' = Str ''severe'') spot_incidents;
          moderate = count_if (\<lambda>i. doc_get i ''severity'' = Str ''moderate'') spot_incidents;
          incident_types = map (\<lambda>i. py_get i ''incidentType'' (Str [])) spot_incidents
      in case lower_all incident_types of
           Inl e \<Rightarrow> Inl e
         | Inr lowered \<Rightarrow>
        (let drowning = count_if (\<lambda>t. sublist ''drowning'' t) lowered;
             reef_cut = count_if (\<lambda>t. sublist ''reef'' t \<or> sublist ''cut'' t) lowered;
             collision = count_if (\<lambda>t. sublist ''collision'' t) lowered;
             rip_current = count_if (\<lambda>t. sublist ''rip'' t) lowered
         in case recent_boost db clk spot_name of
              Inl e \<Rightarrow> Inl e
            | Inr recent_hazard_boost \<Rightarrow>
           (let current_month = now_month clk;
                months = filter truthy (map (\<lambda>i. doc_get i ''month'') spot_incidents);
                peak_season = (if month_in current_month months then 1 else 0)
            in Inr (\<lparr>total_incidents = of_int total + recent_hazard_boost * 5,
                     fatal_count = fatal,
                     severe_count = severe,
                     moderate_count = moderate,
                     drowning_count = drowning,
                     reef_cut_count = reef_cut,
                     collision_count = collision,
                     rip_current_count = rip_current,
                     is_peak_season = peak_season,
                     incidents_per_year = fl (of_int total / 10)\<rparr>,
                    recent_hazard_boost))))"

text \<open>
  The trained classifier is loaded from a file and is a parameter here: what
  \<open>rf_model.predict(X)[0]\<close> and \<open>rf_model.predict_proba(X)[0]\<close> return for the one-row
  frame built from the features, either of which may raise.
\<close>

record classifier =
  predict :: "features \<Rightarrow> py_error + int"
  predict_proba :: "features \<Rightarrow> py_error + real list"

text \<open>
  Indexing a sequence: a negative index counts from the end, an index out of range
  raises \<open>IndexError\<close>.
\<close>

definition py_index :: "'a list \<Rightarrow> int \<Rightarrow> py_error + 'a" where
  "py_index xs i =
     (if 0 \<le> i \<and> i < int (length xs) then Inr (xs ! nat i)
      else if i < 0 \<and> - int (length xs) \<le> i then Inr (xs ! nat (int (length xs) + i))
      else Inl IndexError)"

text \<open>The guard against an out-of-bounds index (lines 91 to 95).\<close>

definition select_confidence :: "int \<Rightarrow> real list \<Rightarrow> py_error + real" where
  "select_confidence risk_level_int risk_level_proba =
     (if int (length risk_level_proba) \<le> risk_level_int then py_index risk_level_proba 0
      else py_index risk_level_proba risk_level_int)"

text \<open>
  The score synthesis (lines 98 to 103), on NumPy scalars: the predicted level is an
  \<open>int64\<close> and the confidence a \<open>float64\<close>.
\<close>

definition base_score :: "int \<Rightarrow> real" where
  "base_score risk_level_int = fmul (fl (of_int (risk_level_int + 1))) (fl 3.33)"

definition confidence_adjustment :: "real \<Rightarrow> real" where
  "confidence_adjustment conf = fmul (fsub conf (fl 0.5)) 2"

definition np_clip :: "real \<Rightarrow> real \<Rightarrow> real \<Rightarrow> real" where
  "np_clip x lo hi = min (max x lo) hi"

definition synthesize_score :: "int \<Rightarrow> real \<Rightarrow> real \<Rightarrow> real" where
  "synthesize_score risk_level_int conf hazard_boost =
     (let risk_score =
            fadd (fadd (base_score risk_level_int) (confidence_adjustment conf)) hazard_boost
      in np_clip risk_score 0 10)"

record prediction =
  risk_score :: real
  risk_level :: string
  flag_color :: string
  confidence :: real
  has_recent_hazards :: bool

text \<open>The fixed thresholds and the returned dict (lines 106 to 122).\<close>

definition make_prediction :: "real \<Rightarrow> real \<Rightarrow> real \<Rightarrow> prediction" where
  "make_prediction clipped_score conf hazard_boost =
     (let lf = (if clipped_score \<le> fl 3.3 then (''Low'', ''green'')
                else if clipped_score \<le> fl 6.6 then (''Medium'', ''yellow'')
                else (''High'', ''red''))
      in \<lparr>risk_score = np_round2 clipped_score,
          risk_level = fst lf,
          flag_color = snd lf,
          confidence = np_round2 conf,
          has_recent_hazards = (0 < hazard_boost)\<rparr>)"

text \<open>\<open>predict_risk_score(spot_name)\<close>.\<close>

definition predict_risk_score :: "classifier \<Rightarrow> database \<Rightarrow> clock \<Rightarrow> bson \<Rightarrow> py_error + prediction" where
  "predict_risk_score rf_model db clk spot_name =
     (case calculate_spot_features db clk spot_name of
        Inl e \<Rightarrow> Inl e
      | Inr (feats, hazard_boost) \<Rightarrow>
     (case predict rf_model feats of
        Inl e \<Rightarrow> Inl e
      | Inr risk_level_int \<Rightarrow>
     (case predict_proba rf_model feats of
        Inl e \<Rightarrow> Inl e
      | Inr risk_level_proba \<Rightarrow>
     (case select_confidence risk_level_int risk_level_proba of
        Inl e \<Rightarrow> Inl e
      | Inr conf \<Rightarrow>
          Inr (make_prediction (synthesize_score risk_level_int conf hazard_boost)
                 conf hazard_boost)))))"

text \<open>
  \<open>update_one({'_id': id}, {'$set': fields})\<close> on the registry sets the fields of the
  first document with that id. A write can fail, so the batch takes the write operation
  as a parameter; \<open>update_one\<close> is the write that always succeeds.
\<close>

type_synonym writer = "database \<Rightarrow> bson \<Rightarrow> doc \<Rightarrow> py_error + database"

definition set_fields :: "doc \<Rightarrow> doc \<Rightarrow> doc" where
  "set_fields d updates = fold (\<lambda>kv acc. AList.update (fst kv) (snd kv) acc) updates d"

fun update_first :: "(doc \<Rightarrow> bool) \<Rightarrow> doc \<Rightarrow> doc list \<Rightarrow> doc list" where
  "update_first q updates [] = []"
| "update_first q updates (d # ds) =
     (if q d then set_fields d updates # ds else d # update_first q updates ds)"

definition update_one :: writer where
  "update_one db spot_id updates =
     Inr (db\<lparr>surf_spots_collection :=
               update_first (field_is ''_id'' spot_id) updates (surf_spots_collection db)\<rparr>)"

text \<open>The two lines \<open>update_all_risk_scores\<close> prints per spot.\<close>

datatype report = Updated bson real string | ErrorUpdating bson py_error

fun report_name :: "report \<Rightarrow> bson" where
  "report_name (Updated n s f) = n"
| "report_name (ErrorUpdating n e) = n"

text \<open>The body of the \<open>try\<close> for one spot.\<close>

definition update_spot :: "classifier \<Rightarrow> writer \<Rightarrow> clock \<Rightarrow> database \<Rightarrow> doc
    \<Rightarrow> py_error + (database \<times> report)" where
  "update_spot rf_model write clk db spot =
     (case py_getitem spot ''name'' of
        Inl e \<Rightarrow> Inl e
      | Inr name \<Rightarrow>
     (case predict_risk_score rf_model db clk name of
        Inl e \<Rightarrow> Inl e
      | Inr p \<Rightarrow>
     (case py_getitem spot ''_id'' of
        Inl e \<Rightarrow> Inl e
      | Inr spot_id \<Rightarrow>
     (case write db spot_id
             [(''riskScore'', Dbl (risk_score p)),
              (''riskLevel'', Str (risk_level p)),
              (''flagColor'', Str (flag_color p)),
              (''lastUpdated'', Date (now clk))] of
        Inl e \<Rightarrow> Inl e
      | Inr db' \<Rightarrow>
     (case py_getitem spot ''name'' of
        Inl e \<Rightarrow> Inl e
      | Inr printed \<Rightarrow> Inr (db', Updated printed (risk_score p) (flag_color p)))))))"

text \<open>The \<open>except Exception as e\<close> handler, which reads the spot's name again.\<close>

definition handle_error :: "doc \<Rightarrow> py_error \<Rightarrow> py_error + report" where
  "handle_error spot e =
     (case py_getitem spot ''name'' of
        Inl e' \<Rightarrow> Inl e'
      | Inr name \<Rightarrow> Inr (ErrorUpdating name e))"

fun update_loop :: "classifier \<Rightarrow> writer \<Rightarrow> clock \<Rightarrow> doc list \<Rightarrow> database \<Rightarrow> report list
    \<Rightarrow> py_error + (database \<times> report list)" where
  "update_loop rf_model write clk [] db printed = Inr (db, printed)"
| "update_loop rf_model write clk (spot # spots) db printed =
     (case update_spot rf_model write clk db spot of
        Inr (db', line) \<Rightarrow> update_loop rf_model write clk spots db' (printed @ [line])
      | Inl e \<Rightarrow>
          (case handle_error spot e of
             Inl e' \<Rightarrow> Inl e'
           | Inr line \<Rightarrow> update_loop rf_model write clk spots db (printed @ [line])))"

text \<open>\<open>update_all_risk_scores()\<close>: the loop over \<open>surf_spots_collection.find()\<close>.\<close>

definition update_all_risk_scores :: "classifier \<Rightarrow> writer \<Rightarrow> clock \<Rightarrow> database
    \<Rightarrow> py_error + (database \<times> report list)" where
  "update_all_risk_scores rf_model write clk db =
     update_loop rf_model write clk (surf_spots_collection db) db []"

section \<open>app.py: the single-location endpoint\<close>

text \<open>
  \<open>predict_risk(spot_name)\<close> of the Flask application: the prediction in a success
  envelope, or any exception as a failure envelope with status 500.
\<close>

record response =
  status :: nat
  success :: bool
  data :: "prediction option"
  message :: "py_error option"

definition predict_risk :: "classifier \<Rightarrow> database \<Rightarrow> clock \<Rightarrow> string \<Rightarrow> response" where
  "predict_risk rf_model db clk spot_name =
     (case predict_risk_score rf_model db clk (Str spot_name) of
        Inr p \<Rightarrow> \<lparr>status = 200, success = True, data = Some p, message = None\<rparr>
      | Inl e \<Rightarrow> \<lparr>status = 500, success = False, data = None, message = Some e\<rparr>)"

text \<open>
  The recency weight of one hazard report as the specification words it: 2.0 for
  severity high, 1.0 for medium and 0.5 otherwise.
\<close>

definition spec_hazard_weight :: "doc \<Rightarrow> real" where
  "spec_hazard_weight h =
     (if map_of h ''severity'' = Some (Str ''high'') then 2.0
      else if map_of h ''severity'' = Some (Str ''medium'') then 1.0
      else 0.5)"

section \<open>Example data\<close>

text \<open>
  A classifier that always predicts level 0 with probability 1, a clock, an empty
  database, a database with two spots (three incidents and one recent hazard report of
  severity high at the first), a registry whose first document has no \<open>name\<close> field,
  and a write that fails for the first spot.
\<close>

definition example_model :: classifier where
  "example_model = \<lparr>predict = (\<lambda>f. Inr 0), predict_proba = (\<lambda>f. Inr [1])\<rparr>"

definition example_clock :: clock where
  "example_clock = \<lparr>now = 1000000, now_month = 6\<rparr>"

definition empty_db :: database where
  "empty_db = \<lparr>incidents_collection = [], surf_spots_collection = [],
                hazard_reports_collection = []\<rparr>"

definition example_db :: database where
  "example_db =
     \<lparr>incidents_collection =
        [[(''site'', Str ''Hikkaduwa''), (''incidentType'', Str ''Rip Current Drowning''),
          (''severity'', Str ''fatal''), (''month'', Num 6)],
         [(''site'', Str ''Hikkaduwa''), (''incidentType'', Str ''Reef cut''),
          (''severity'', Str ''moderate''), (''month'', Null)],
         [(''site'', Str ''Hikkaduwa'')],
         [(''site'', Str ''Matara'')]],
      surf_spots_collection =
        [[(''_id'', ObjectId 1), (''name'', Str ''Hikkaduwa'')],
         [(''_id'', ObjectId 2), (''name'', Str ''Matara'')]],
      hazard_reports_collection =
        [[(''surfSpot'', ObjectId 1), (''reportDate'', Date 950000),
          (''severity'', Str ''high''), (''status'', Str ''pending'')]]\<rparr>"

definition nameless_db :: database where
  "nameless_db =
     \<lparr>incidents_collection = [],
      surf_spots_collection =
        [[(''_id'', ObjectId 1), (''location'', Str ''Southern Province'')],
         [(''_id'', ObjectId 2), (''name'', Str ''Matara'')]],
      hazard_reports_collection = []\<rparr>"

definition flaky_write :: writer where
  "flaky_write db spot_id updates =
     (if spot_id = ObjectId 1 then Inl (DatabaseError ''write failed'')
      else update_one db spot_id updates)"

section \<open>Properties of binary64 rounding\<close>

lemma round_half_even_cases:
  "round_half_even x = \<lfloor>x\<rfloor> \<or> round_half_even x = \<lfloor>x\<rfloor> + 1"
  by (simp add: round_half_even_def Let_def)

lemma round_half_even_of_int: "round_half_even (of_int n) = n"
  by (simp add: round_half_even_def Let_def)

lemma round_half_even_ge: "of_int n \<le> x \<Longrightarrow> n \<le> round_half_even x"
proof -
  assume "of_int n \<le> x"
  then have "n \<le> \<lfloor>x\<rfloor>" by (simp add: le_floor_iff)
  then show ?thesis using round_half_even_cases [of x] by auto
qed

lemma round_half_even_le: "x \<le> of_int n \<Longrightarrow> round_half_even x \<le> n"
proof (cases "x = of_int n")
  case True
  then show ?thesis by (simp add: round_half_even_of_int)
next
  case False
  assume "x \<le> of_int n"
  with False have "x < of_int n" by simp
  then have "\<lfloor>x\<rfloor> < n" by (simp add: floor_less_iff)
  then show ?thesis using round_half_even_cases [of x] by auto
qed

text \<open>
  Below \<open>2^53\<close> the spacing of binary64 numbers is at most 1, so rounding never crosses
  an integer: an integer bound on \<open>x\<close> is a bound on \<open>fl x\<close>.
\<close>

lemma exponent_le_52:
  assumes "\<bar>x\<bar> < 2 ^ 53"
  shows "exponent \<bar>x\<bar> \<le> 52"
proof (cases "1 \<le> \<bar>x\<bar>")
  case True
  from assms have "\<lfloor>\<bar>x\<bar>\<rfloor> < 2 ^ 53"
    by (simp add: floor_less_iff)
  then have "bitlen \<lfloor>\<bar>x\<bar>\<rfloor> \<le> 53"
    by (simp add: bitlen_le_iff_power)
  with True show ?thesis by (simp add: exponent_def)
next
  case False
  have "0 \<le> bitlen (\<lceil>1 / \<bar>x\<bar>\<rceil> - 1)" by (rule bitlen_nonneg)
  with False show ?thesis by (simp add: exponent_def)
qed

lemma fl_scaled:
  assumes "x \<noteq> 0" and "\<bar>x\<bar> < 2 ^ 53"
  shows "\<exists>n. fl x = of_int (round_half_even (x * 2 ^ n)) / 2 ^ n"
proof -
  from exponent_le_52 [OF assms(2)] have "0 \<le> 52 - max (exponent \<bar>x\<bar>) (- 1022)"
    by simp
  with assms(1) have "fl x =
      of_int (round_half_even (x * 2 ^ nat (52 - max (exponent \<bar>x\<bar>) (- 1022))))
        / 2 ^ nat (52 - max (exponent \<bar>x\<bar>) (- 1022))"
    by (simp add: fl_def Let_def)
  then show ?thesis by blast
qed

lemma fl_le_int:
  assumes "x \<le> of_int N" and "\<bar>x\<bar> < 2 ^ 53"
  shows "fl x \<le> of_int N"
proof (cases "x = 0")
  case True
  with assms(1) show ?thesis by (simp add: fl_def)
next
  case False
  from fl_scaled [OF False assms(2)]
  obtain n where n: "fl x = of_int (round_half_even (x * 2 ^ n)) / 2 ^ n" by blast
  from assms(1) have "x * 2 ^ n \<le> of_int (N * 2 ^ n)"
    by (simp add: mult_right_mono)
  then have "round_half_even (x * 2 ^ n) \<le> N * 2 ^ n"
    by (rule round_half_even_le)
  then have "(of_int (round_half_even (x * 2 ^ n)) :: real) \<le> of_int (N * 2 ^ n)"
    by (simp only: of_int_le_iff)
  then have "of_int (round_half_even (x * 2 ^ n)) / 2 ^ n \<le> (of_int N :: real)"
    by (simp add: field_simps)
  with n show ?thesis by simp
qed

lemma fl_ge_int:
  assumes "of_int N \<le> x" and "\<bar>x\<bar> < 2 ^ 53"
  shows "of_int N \<le> fl x"
proof (cases "x = 0")
  case True
  with assms(1) show ?thesis by (simp add: fl_def)
next
  case False
  from fl_scaled [OF False assms(2)]
  obtain n where n: "fl x = of_int (round_half_even (x * 2 ^ n)) / 2 ^ n" by blast
  from assms(1) have "of_int (N * 2 ^ n) \<le> x * 2 ^ n"
    by (simp add: mult_right_mono)
  then have "N * 2 ^ n \<le> round_half_even (x * 2 ^ n)"
    by (rule round_half_even_ge)
  then have "(of_int (N * 2 ^ n) :: real) \<le> of_int (round_half_even (x * 2 ^ n))"
    by (simp only: of_int_le_iff)
  then have "(of_int N :: real) \<le> of_int (round_half_even (x * 2 ^ n)) / 2 ^ n"
    by (simp add: field_simps)
  with n show ?thesis by simp
qed

text \<open>NumPy's rounding keeps a score between 0 and 10 there.\<close>

lemma np_round2_range:
  assumes "0 \<le> x" and "x \<le> 10"
  shows "0 \<le> np_round2 x \<and> np_round2 x \<le> 10"
proof -
  let ?y = "fl (x * 100)"
  let ?r = "round_half_even ?y"
  from assms have small: "\<bar>x * 100\<bar> < 2 ^ 53" by simp
  from assms have "of_int 0 \<le> x * 100" "x * 100 \<le> of_int 1000" by simp_all
  then have y: "of_int 0 \<le> ?y" "?y \<le> of_int 1000"
    using small by (simp_all only: fl_ge_int fl_le_int)
  then have r: "0 \<le> ?r" "?r \<le> 1000"
    by (simp_all only: round_half_even_ge round_half_even_le)
  then have q: "of_int 0 \<le> (of_int ?r / 100 :: real)" "(of_int ?r / 100 :: real) \<le> of_int 10"
    by simp_all
  from r have "\<bar>of_int ?r / 100 :: real\<bar> < 2 ^ 53" by simp
  with q have "of_int 0 \<le> fl (of_int ?r / 100)" "fl (of_int ?r / 100) \<le> of_int 10"
    by (simp_all only: fl_ge_int fl_le_int)
  then show ?thesis by (simp add: np_round2_def fmul_def)
qed

text \<open>The float literals of the source that binary64 holds exactly.\<close>

lemma fl_exact:
  "fl 1 = 1" "fl 5 = 5" "fl 6 = 6" "fl 7 = 7" "fl 8 = 8" "fl 10 = 10"
  "fl (1 / 2) = 1 / 2" "fl (3 / 2) = 3 / 2" "fl (13 / 2) = 13 / 2"
  by code_simp+

lemma py_round2_10: "py_round2 10 = 10"
  by code_simp

section \<open>Properties of the threshold engine\<close>

lemma beginner_default:
  "py_getitem SKILL_THRESHOLDS ''beginner'' = Inr \<lparr>low = 5.0, medium = 6.5\<rparr>"
  by (simp add: py_getitem_def SKILL_THRESHOLDS_def fl_exact)

lemma thresholds_beginner:
  "py_get SKILL_THRESHOLDS ''beginner'' d = \<lparr>low = 5.0, medium = 6.5\<rparr>"
  by (simp add: py_get_def SKILL_THRESHOLDS_def fl_exact)

lemma thresholds_intermediate:
  "py_get SKILL_THRESHOLDS ''intermediate'' d = \<lparr>low = 6.0, medium = fl 7.2\<rparr>"
  by (simp add: py_get_def SKILL_THRESHOLDS_def fl_exact)

lemma thresholds_advanced:
  "py_get SKILL_THRESHOLDS ''advanced'' d = \<lparr>low = 7.0, medium = 8.0\<rparr>"
  by (simp add: py_get_def SKILL_THRESHOLDS_def fl_exact)

lemma level_beginner:
  "get_risk_level_and_flag s ''beginner'' =
     Inr (if s \<le> 5.0 then (''Low'', ''green'')
          else if s \<le> 6.5 then (''Medium'', ''yellow'') else (''High'', ''red''))"
  by (simp add: get_risk_level_and_flag_def beginner_default thresholds_beginner)

lemma level_intermediate:
  "get_risk_level_and_flag s ''intermediate'' =
     Inr (if s \<le> 6.0 then (''Low'', ''green'')
          else if s \<le> fl 7.2 then (''Medium'', ''yellow'') else (''High'', ''red''))"
  by (simp add: get_risk_level_and_flag_def beginner_default thresholds_intermediate)

lemma level_advanced:
  "get_risk_level_and_flag s ''advanced'' =
     Inr (if s \<le> 7.0 then (''Low'', ''green'')
          else if s \<le> 8.0 then (''Medium'', ''yellow'') else (''High'', ''red''))"
  by (simp add: get_risk_level_and_flag_def beginner_default thresholds_advanced)

lemma get_risk_level_and_flag_returns:
  "\<exists>l f. get_risk_level_and_flag s k = Inr (l, f)"
  by (simp add: get_risk_level_and_flag_def beginner_default Let_def)

lemma overall_entry_returns: "\<exists>ov. overall_entry b i a = Inr ov"
  by (simp add: overall_entry_def Let_def level_beginner)

text \<open>
  Claim C5. For every score and each of the three skill tiers, the threshold engine
  returns Low/green up to the tier's low cutoff, Medium/yellow above it up to the
  medium cutoff and High/red above that, with the cutoffs (5.0, 6.5) for beginner,
  (6.0, 7.2) for intermediate and (7.0, 8.0) for advanced, each the float the source
  writes: all but 7.2 are exact, and the float 7.2 is \<open>8106479329266893 / 2^50\<close>. For
  the beginner tier 5.0 is Low, 5.01 and 6.5 are Medium, and 6.51 is High, for the
  decimals and for the floats nearest to them. In every tier the low cutoff is below
  the medium cutoff, so the three ranges neither overlap nor invert.
\<close>

theorem get_risk_level_and_flag_tiers:
  "get_risk_level_and_flag s ''beginner'' =
     Inr (if s \<le> 5.0 then (''Low'', ''green'')
          else if s \<le> 6.5 then (''Medium'', ''yellow'') else (''High'', ''red''))
   \<and> get_risk_level_and_flag s ''intermediate'' =
     Inr (if s \<le> 6.0 then (''Low'', ''green'')
          else if s \<le> fl 7.2 then (''Medium'', ''yellow'') else (''High'', ''red''))
   \<and> fl 7.2 = 8106479329266893 / 2 ^ 50
   \<and> get_risk_level_and_flag s ''advanced'' =
     Inr (if s \<le> 7.0 then (''Low'', ''green'')
          else if s \<le> 8.0 then (''Medium'', ''yellow'') else (''High'', ''red''))
   \<and> get_risk_level_and_flag 5.0 ''beginner'' = Inr (''Low'', ''green'')
   \<and> get_risk_level_and_flag 5.01 ''beginner'' = Inr (''Medium'', ''yellow'')
   \<and> get_risk_level_and_flag 6.5 ''beginner'' = Inr (''Medium'', ''yellow'')
   \<and> get_risk_level_and_flag 6.51 ''beginner'' = Inr (''High'', ''red'')
   \<and> get_risk_level_and_flag (fl 5.01) ''beginner'' = Inr (''Medium'', ''yellow'')
   \<and> get_risk_level_and_flag (fl 6.51) ''beginner'' = Inr (''High'', ''red'')
   \<and> list_all (\<lambda>kt. low (snd kt) < medium (snd kt)) SKILL_THRESHOLDS"
proof -
  have v: "fl 7.2 = 8106479329266893 / 2 ^ 50"
    by code_simp
  have p1: "get_risk_level_and_flag (fl 5.01) ''beginner'' = Inr (''Medium'', ''yellow'')"
    by code_simp
  have p2: "get_risk_level_and_flag (fl 6.51) ''beginner'' = Inr (''High'', ''red'')"
    by code_simp
  have o: "list_all (\<lambda>kt. low (snd kt) < medium (snd kt)) SKILL_THRESHOLDS"
    by code_simp
  have pts: "get_risk_level_and_flag 5.0 ''beginner'' = Inr (''Low'', ''green'')"
    "get_risk_level_and_flag 5.01 ''beginner'' = Inr (''Medium'', ''yellow'')"
    "get_risk_level_and_flag 6.5 ''beginner'' = Inr (''Medium'', ''yellow'')"
    "get_risk_level_and_flag 6.51 ''beginner'' = Inr (''High'', ''red'')"
    by (simp_all add: level_beginner)
  from v p1 p2 o pts level_beginner [of s] level_intermediate [of s] level_advanced [of s]
  show ?thesis by blast
qed

subsection \<open>The per-tier score\<close>

lemma calculate_risk_score_nonzero:
  "m \<noteq> 0 \<Longrightarrow>
   calculate_risk_score c m k =
     Inr (py_round2 (min 10 (fmul (fmul (fl (of_int c / of_int m)) 10) k)))"
  by (simp add: calculate_risk_score_def py_truediv_def Let_def)

lemma calculate_risk_score_returns: "\<exists>r. calculate_risk_score c m k = Inr r"
  by (cases "m = 0") (simp_all add: calculate_risk_score_def py_truediv_def Let_def)

lemma spot_risks_unfold:
  "\<exists>b i a bl bf il ifl al af ov.
      calculate_risk_score (beginner (snd item)) mb (fl 1.5) = Inr b
    \<and> calculate_risk_score (intermediate (snd item)) mi (fl 1.0) = Inr i
    \<and> calculate_risk_score (advanced (snd item)) ma (fl 0.7) = Inr a
    \<and> overall_entry b i a = Inr ov
    \<and> spot_risks mb mi ma item =
          Inr \<lparr>spot_name_r = fst item, total_incidents_r = total (snd item), overall_r = ov,
               beginner_r = \<lparr>score = b, level = bl, flag = bf,
                              incidents = beginner (snd item)\<rparr>,
               intermediate_r = \<lparr>score = i, level = il, flag = ifl,
                                  incidents = intermediate (snd item)\<rparr>,
               advanced_r = \<lparr>score = a, level = al, flag = af,
                              incidents = advanced (snd item)\<rparr>\<rparr>"
proof -
  obtain b where sb: "calculate_risk_score (beginner (snd item)) mb (fl 1.5) = Inr b"
    using calculate_risk_score_returns by blast
  obtain i where si: "calculate_risk_score (intermediate (snd item)) mi (fl 1.0) = Inr i"
    using calculate_risk_score_returns by blast
  obtain a where sa: "calculate_risk_score (advanced (snd item)) ma (fl 0.7) = Inr a"
    using calculate_risk_score_returns by blast
  obtain bl bf where lb: "get_risk_level_and_flag b ''beginner'' = Inr (bl, bf)"
    using get_risk_level_and_flag_returns by blast
  obtain il ifl where li: "get_risk_level_and_flag i ''intermediate'' = Inr (il, ifl)"
    using get_risk_level_and_flag_returns by blast
  obtain al af where la: "get_risk_level_and_flag a ''advanced'' = Inr (al, af)"
    using get_risk_level_and_flag_returns by blast
  obtain ov where ov: "overall_entry b i a = Inr ov"
    using overall_entry_returns by blast
  have "spot_risks mb mi ma item =
          Inr \<lparr>spot_name_r = fst item, total_incidents_r = total (snd item), overall_r = ov,
               beginner_r = \<lparr>score = b, level = bl, flag = bf,
                              incidents = beginner (snd item)\<rparr>,
               intermediate_r = \<lparr>score = i, level = il, flag = ifl,
                                  incidents = intermediate (snd item)\<rparr>,
               advanced_r = \<lparr>score = a, level = al, flag = af,
                              incidents = advanced (snd item)\<rparr>\<rparr>"
    unfolding spot_risks_def Let_def sb si sa sum.case lb li la ov prod.case
    by (rule refl)
  with sb si sa ov show ?thesis by blast
qed

lemma spot_risks_scores:
  assumes "0 < m" and "0 < mi" and "0 < ma"
  shows "\<exists>r. spot_risks m mi ma (name, row) = Inr r
               \<and> score (beginner_r r)
                   = py_round2 (min 10 (fmul (fmul (fl (of_int (beginner row) / of_int m)) 10)
                        (fl 1.5)))
               \<and> score (intermediate_r r)
                   = py_round2 (min 10 (fmul (fmul (fl (of_int (intermediate row) / of_int mi)) 10)
                        (fl 1.0)))
               \<and> score (advanced_r r)
                   = py_round2 (min 10 (fmul (fmul (fl (of_int (advanced row) / of_int ma)) 10)
                        (fl 0.7)))"
proof -
  from assms have nz: "m \<noteq> 0" "mi \<noteq> 0" "ma \<noteq> 0" by simp_all
  from spot_risks_unfold [of "(name, row)" m mi ma]
  obtain b i a r where
    sb: "calculate_risk_score (beginner row) m (fl 1.5) = Inr b"
    and si: "calculate_risk_score (intermediate row) mi (fl 1.0) = Inr i"
    and sa: "calculate_risk_score (advanced row) ma (fl 0.7) = Inr a"
    and r: "spot_risks m mi ma (name, row) = Inr r"
    and sc: "score (beginner_r r) = b" "score (intermediate_r r) = i" "score (advanced_r r) = a"
    unfolding fst_conv snd_conv by force
  from sb calculate_risk_score_nonzero [OF nz(1), of "beginner row" "fl 1.5"]
  have b: "b = py_round2 (min 10 (fmul (fmul (fl (of_int (beginner row) / of_int m)) 10)
                        (fl 1.5)))" by simp
  from si calculate_risk_score_nonzero [OF nz(2), of "intermediate row" "fl 1.0"]
  have i: "i = py_round2 (min 10 (fmul (fmul (fl (of_int (intermediate row) / of_int mi)) 10)
                        (fl 1.0)))" by simp
  from sa calculate_risk_score_nonzero [OF nz(3), of "advanced row" "fl 0.7"]
  have a: "a = py_round2 (min 10 (fmul (fmul (fl (of_int (advanced row) / of_int ma)) 10)
                        (fl 0.7)))" by simp
  from r sc b i a show ?thesis by blast
qed

text \<open>
  Claim C10. \<open>calculate_risk_score\<close> returns 0 whenever \<open>max_incidents\<close> is 0, for
  every incident count and multiplier, and for no arguments at all does it raise: the
  division by the tier-wide maximum is never evaluated with a zero divisor.
\<close>

theorem calculate_risk_score_zero_max:
  "calculate_risk_score c 0 k = Inr 0 \<and> (\<exists>r. calculate_risk_score c m k = Inr r)"
  by (cases "m = 0") (simp_all add: calculate_risk_score_def py_truediv_def Let_def)

text \<open>
  Claim C8, as stated, fails: the per-tier score is the capped product rounded to two
  decimals, not the capped product. Trincomalee's beginner tier (74 incidents, the
  tier's maximum 142, multiplier 1.5) scores 7.82, the float nearest to it, while the
  capped product is below 10 and is neither that float nor, without rounding errors,
  555/71.
\<close>

theorem calculate_risk_score_not_exact_product:
  "calculate_risk_score 74 142 1.5 = Inr (fl 7.82)
   \<and> fmul (fmul (fl (74 / 142)) 10) 1.5 < 10
   \<and> calculate_risk_score 74 142 1.5 \<noteq> Inr (min 10 (fmul (fmul (fl (74 / 142)) 10) 1.5))
   \<and> min 10 (10 * 74 / 142 * 1.5) = (555 / 71 :: real)
   \<and> calculate_risk_score 74 142 1.5 \<noteq> Inr (min 10 (10 * 74 / 142 * 1.5))"
  by code_simp

text \<open>
  Claim C8, amended. For a tier-wide maximum \<open>m > 0\<close>, every incident count \<open>c\<close> and
  every multiplier \<open>k\<close>, the computed score is the product \<open>(c / m) * 10 * k\<close>, taken
  from left to right in binary64 arithmetic as the source does, capped at 10 and then
  rounded to two decimals by Python's \<open>round\<close>: the rounded product when the product
  is below 10, and 10 otherwise. The loop body calls it with the multipliers 1.5
  (beginner), 1.0 (intermediate) and the float 0.7 (advanced), so these are the three
  scores of every spot's result.
\<close>

theorem calculate_risk_score_rounded_clamp:
  assumes "0 < m" and "0 < mi" and "0 < ma"
  shows "calculate_risk_score c m k =
           Inr (if fmul (fmul (fl (of_int c / of_int m)) 10) k < 10
                then py_round2 (fmul (fmul (fl (of_int c / of_int m)) 10) k) else 10)
         \<and> (\<exists>r. spot_risks m mi ma (name, row) = Inr r
               \<and> score (beginner_r r)
                   = py_round2 (min 10 (fmul (fmul (fl (of_int (beginner row) / of_int m)) 10)
                        1.5))
               \<and> score (intermediate_r r)
                   = py_round2 (min 10 (fmul (fmul (fl (of_int (intermediate row) / of_int mi)) 10)
                        1.0))
               \<and> score (advanced_r r)
                   = py_round2 (min 10 (fmul (fmul (fl (of_int (advanced row) / of_int ma)) 10)
                        (fl 0.7))))"
proof -
  from assms have m: "m \<noteq> 0" by simp
  have one: "calculate_risk_score c m k =
           Inr (if fmul (fmul (fl (of_int c / of_int m)) 10) k < 10
                then py_round2 (fmul (fmul (fl (of_int c / of_int m)) 10) k) else 10)"
    using calculate_risk_score_nonzero [OF m, of c k] by (simp add: min_def py_round2_10)
  have two: "\<exists>r. spot_risks m mi ma (name, row) = Inr r
               \<and> score (beginner_r r)
                   = py_round2 (min 10 (fmul (fmul (fl (of_int (beginner row) / of_int m)) 10)
                        1.5))
               \<and> score (intermediate_r r)
                   = py_round2 (min 10 (fmul (fmul (fl (of_int (intermediate row) / of_int mi)) 10)
                        1.0))
               \<and> score (advanced_r r)
                   = py_round2 (min 10 (fmul (fmul (fl (of_int (advanced row) / of_int ma)) 10)
                        (fl 0.7)))"
    using spot_risks_scores [OF assms, of name row] by (simp add: fl_exact)
  from one two show ?thesis by blast
qed

theorem calculate_risk_score_rounded_clamp_witness:
  "(0::int) < 142 \<and> (0::int) < 81 \<and> (0::int) < 50
   \<and> calculate_risk_score 74 142 1.5 = Inr (fl 7.82)
   \<and> calculate_risk_score 124 142 1.5 = Inr 10
   \<and> calculate_risk_score 1 40 (fl 0.7) = Inr (fl 0.17)
   \<and> calculate_risk_score 13 120 1.5 = Inr (fl 1.63)"
proof -
  have h: "(0::int) < 142" "(0::int) < 81" "(0::int) < 50" by simp_all
  have g: "(0::int) < 40" "(0::int) < 120" by simp_all
  have e1: "(if fmul (fmul (fl (of_int 74 / of_int 142)) 10) 1.5 < 10
             then py_round2 (fmul (fmul (fl (of_int 74 / of_int 142)) 10) 1.5) else 10)
            = fl 7.82"
    by code_simp
  have e2: "(if fmul (fmul (fl (of_int 124 / of_int 142)) 10) 1.5 < 10
             then py_round2 (fmul (fmul (fl (of_int 124 / of_int 142)) 10) 1.5) else 10)
            = 10"
    by code_simp
  have e3: "(if fmul (fmul (fl (of_int 1 / of_int 40)) 10) (fl 0.7) < 10
             then py_round2 (fmul (fmul (fl (of_int 1 / of_int 40)) 10) (fl 0.7)) else 10)
            = fl 0.17"
    by code_simp
  have e4: "(if fmul (fmul (fl (of_int 13 / of_int 120)) 10) 1.5 < 10
             then py_round2 (fmul (fmul (fl (of_int 13 / of_int 120)) 10) 1.5) else 10)
            = fl 1.63"
    by code_simp
  from calculate_risk_score_rounded_clamp [OF h, of 74 "1.5", THEN conjunct1]
  have a: "calculate_risk_score 74 142 1.5 = Inr (fl 7.82)" unfolding e1 .
  from calculate_risk_score_rounded_clamp [OF h, of 124 "1.5", THEN conjunct1]
  have b: "calculate_risk_score 124 142 1.5 = Inr 10" unfolding e2 .
  from calculate_risk_score_rounded_clamp [OF g(1) h(2) h(3), of 1 "fl 0.7", THEN conjunct1]
  have c: "calculate_risk_score 1 40 (fl 0.7) = Inr (fl 0.17)" unfolding e3 .
  from calculate_risk_score_rounded_clamp [OF g(2) h(2) h(3), of 13 "1.5", THEN conjunct1]
  have d: "calculate_risk_score 13 120 1.5 = Inr (fl 1.63)" unfolding e4 .
  from h a b c d show ?thesis by simp
qed

subsection \<open>The overall score\<close>

lemma spot_risks_overall:
  assumes "spot_risks mb mi ma item = Inr r"
  shows "overall_entry (score (beginner_r r)) (score (intermediate_r r)) (score (advanced_r r))
           = Inr (overall_r r)"
proof -
  from spot_risks_unfold [of item mb mi ma]
  obtain b i a ov r' where
    ov: "overall_entry b i a = Inr ov"
    and r': "spot_risks mb mi ma item = Inr r'"
    and sc: "score (beginner_r r') = b" "score (intermediate_r r') = i"
      "score (advanced_r r') = a" "overall_r r' = ov"
    by force
  from assms r' have "r = r'" by simp
  with ov sc show ?thesis by simp
qed

text \<open>
  Claim C4. For every three per-tier scores the overall score is
  \<open>beginner * 0.5 + intermediate * 0.3 + advanced * 0.2\<close>, the float expression of the
  source with the weights as the floats it writes and no rounding to two decimals in
  between; only the stored score is rounded to two decimals, while the overall level
  and flag are read from the unrounded score under the beginner thresholds (5.0 and
  6.5). Every spot's entry of \<open>calculate_skill_based_risks\<close> is computed this way from
  its three tier scores. The scores 7.5, 7.5 and 3.0 give 6.6, which is High/red.
\<close>

theorem overall_weighted_average:
  "overall_score b i a = fadd (fadd (fmul b 0.5) (fmul i (fl 0.3))) (fmul a (fl 0.2))
   \<and> overall_entry b i a =
       Inr \<lparr>score = py_round2 (overall_score b i a),
            level = (if overall_score b i a \<le> 5.0 then ''Low''
                     else if overall_score b i a \<le> 6.5 then ''Medium'' else ''High''),
            flag = (if overall_score b i a \<le> 5.0 then ''green''
                    else if overall_score b i a \<le> 6.5 then ''yellow'' else ''red'')\<rparr>
   \<and> (\<exists>lf. get_risk_level_and_flag (overall_score b i a) ''beginner'' = Inr lf
          \<and> overall_entry b i a =
              Inr \<lparr>score = py_round2 (overall_score b i a), level = fst lf, flag = snd lf\<rparr>)
   \<and> (\<forall>r. spot_risks mb mi ma item = Inr r \<longrightarrow>
          Inr (overall_r r) =
            overall_entry (score (beginner_r r)) (score (intermediate_r r)) (score (advanced_r r)))
   \<and> overall_score 7.5 7.5 3.0 = fl 6.6
   \<and> overall_entry 7.5 7.5 3.0 = Inr \<lparr>score = fl 6.6, level = ''High'', flag = ''red''\<rparr>"
proof -
  have one: "overall_score b i a = fadd (fadd (fmul b 0.5) (fmul i (fl 0.3))) (fmul a (fl 0.2))"
    by (simp add: overall_score_def fl_exact)
  have two: "overall_entry b i a =
       Inr \<lparr>score = py_round2 (overall_score b i a),
            level = (if overall_score b i a \<le> 5.0 then ''Low''
                     else if overall_score b i a \<le> 6.5 then ''Medium'' else ''High''),
            flag = (if overall_score b i a \<le> 5.0 then ''green''
                    else if overall_score b i a \<le> 6.5 then ''yellow'' else ''red'')\<rparr>"
    by (simp add: overall_entry_def Let_def level_beginner)
  have three: "\<exists>lf. get_risk_level_and_flag (overall_score b i a) ''beginner'' = Inr lf
          \<and> overall_entry b i a =
              Inr \<lparr>score = py_round2 (overall_score b i a), level = fst lf, flag = snd lf\<rparr>"
    by (simp add: overall_entry_def Let_def level_beginner)
  have four: "\<forall>r. spot_risks mb mi ma item = Inr r \<longrightarrow>
          Inr (overall_r r) =
            overall_entry (score (beginner_r r)) (score (intermediate_r r)) (score (advanced_r r))"
    by (simp add: spot_risks_overall)
  have five: "overall_score 7.5 7.5 3.0 = fl 6.6"
    by code_simp
  have six: "overall_entry 7.5 7.5 3.0 = Inr \<lparr>score = fl 6.6, level = ''High'', flag = ''red''\<rparr>"
    by code_simp
  from one two three four five six show ?thesis by blast
qed

theorem overall_weighted_average_witness:
  "spot_risks 142 81 50
      (''Trincomalee'', \<lparr>total = 298, advanced = 5, beginner = 74, intermediate = 19\<rparr>)
     = Inr \<lparr>spot_name_r = ''Trincomalee'', total_incidents_r = 298,
            overall_r = \<lparr>score = 4.75, level = ''Low'', flag = ''green''\<rparr>,
            beginner_r = \<lparr>score = fl 7.82, level = ''High'', flag = ''red'', incidents = 74\<rparr>,
            intermediate_r = \<lparr>score = fl 2.35, level = ''Low'', flag = ''green'', incidents = 19\<rparr>,
            advanced_r = \<lparr>score = fl 0.7, level = ''Low'', flag = ''green'', incidents = 5\<rparr>\<rparr>
   \<and> overall_entry (fl 7.82) (fl 2.35) (fl 0.7)
       = Inr \<lparr>score = 4.75, level = ''Low'', flag = ''green''\<rparr>
   \<and> overall_entry (fl 7.94) 2.5 (fl 1.4)
       = Inr \<lparr>score = 5, level = ''Medium'', flag = ''yellow''\<rparr>"
proof -
  have s: "spot_risks 142 81 50
      (''Trincomalee'', \<lparr>total = 298, advanced = 5, beginner = 74, intermediate = 19\<rparr>)
     = Inr \<lparr>spot_name_r = ''Trincomalee'', total_incidents_r = 298,
            overall_r = \<lparr>score = 4.75, level = ''Low'', flag = ''green''\<rparr>,
            beginner_r = \<lparr>score = fl 7.82, level = ''High'', flag = ''red'', incidents = 74\<rparr>,
            intermediate_r = \<lparr>score = fl 2.35, level = ''Low'', flag = ''green'', incidents = 19\<rparr>,
            advanced_r = \<lparr>score = fl 0.7, level = ''Low'', flag = ''green'', incidents = 5\<rparr>\<rparr>"
    by code_simp
  from overall_weighted_average [of "fl 7.82" "fl 2.35" "fl 0.7" 142 81 50
      "(''Trincomalee'', \<lparr>total = 298, advanced = 5, beginner = 74, intermediate = 19\<rparr>)"]
  have t: "overall_entry (fl 7.82) (fl 2.35) (fl 0.7)
       = Inr \<lparr>score = 4.75, level = ''Low'', flag = ''green''\<rparr>"
    using s by simp
  have e: "py_round2 (overall_score (fl 7.94) 2.5 (fl 1.4)) = 5"
    "\<not> overall_score (fl 7.94) 2.5 (fl 1.4) \<le> 5.0"
    "overall_score (fl 7.94) 2.5 (fl 1.4) \<le> 6.5"
    by code_simp+
  from overall_weighted_average [of "fl 7.94" "2.5" "fl 1.4", THEN conjunct2, THEN conjunct1]
  have u: "overall_entry (fl 7.94) 2.5 (fl 1.4)
       = Inr \<lparr>score = 5, level = ''Medium'', flag = ''yellow''\<rparr>"
    using e by simp
  from s t u show ?thesis by simp
qed

section \<open>Properties of the score synthesizer and the batch updater\<close>

subsection \<open>The score synthesizer\<close>

lemma synthesize_score_range: "0 \<le> synthesize_score l c b \<and> synthesize_score l c b \<le> 10"
  by (simp add: synthesize_score_def np_clip_def Let_def)

lemma predict_risk_score_InrD:
  assumes "predict_risk_score rf db clk name = Inr r"
  shows "\<exists>f b l p c. calculate_spot_features db clk name = Inr (f, b)
           \<and> predict rf f = Inr l \<and> predict_proba rf f = Inr p
           \<and> select_confidence l p = Inr c
           \<and> r = make_prediction (synthesize_score l c b) c b"
  using assms unfolding predict_risk_score_def
  by (auto split: sum.splits prod.splits)

lemma predict_risk_score_InrI:
  assumes "calculate_spot_features db clk name = Inr (f, b)"
    and "predict rf f = Inr l" and "predict_proba rf f = Inr p"
    and "select_confidence l p = Inr c"
  shows "predict_risk_score rf db clk name = Inr (make_prediction (synthesize_score l c b) c b)"
  using assms by (simp add: predict_risk_score_def)

text \<open>The two example predictions, evaluated step by step.\<close>

lemma example_features:
  "calculate_spot_features example_db example_clock (Str ''Hikkaduwa'')
      = Inr (\<lparr>total_incidents = 13, fatal_count = 1, severe_count = 0, moderate_count = 1,
               drowning_count = 1, reef_cut_count = 1, collision_count = 0,
               rip_current_count = 1, is_peak_season = 1, incidents_per_year = fl (3 / 10)\<rparr>, 2)"
  by code_simp

lemma empty_features:
  "calculate_spot_features empty_db example_clock (Str ''Nowhere'')
      = Inr (\<lparr>total_incidents = 0, fatal_count = 0, severe_count = 0, moderate_count = 0,
               drowning_count = 0, reef_cut_count = 0, collision_count = 0,
               rip_current_count = 0, is_peak_season = 0, incidents_per_year = 0\<rparr>, 0)"
  by code_simp

lemma example_model_output:
  "predict example_model f = Inr 0" "predict_proba example_model f = Inr [1]"
  "select_confidence 0 [1] = Inr 1"
  by (simp_all add: example_model_def select_confidence_def py_index_def)

lemma example_prediction:
  "predict_risk_score example_model example_db example_clock (Str ''Hikkaduwa'')
     = Inr \<lparr>risk_score = fl 6.33, risk_level = ''Medium'', flag_color = ''yellow'',
            confidence = 1, has_recent_hazards = True\<rparr>"
proof -
  have m: "make_prediction (synthesize_score 0 1 2) 1 2
     = \<lparr>risk_score = fl 6.33, risk_level = ''Medium'', flag_color = ''yellow'',
        confidence = 1, has_recent_hazards = True\<rparr>"
    by code_simp
  from predict_risk_score_InrI [OF example_features example_model_output]
  show ?thesis unfolding m .
qed

lemma empty_prediction:
  "predict_risk_score example_model empty_db example_clock (Str ''Nowhere'')
     = Inr \<lparr>risk_score = fl 4.33, risk_level = ''Medium'', flag_color = ''yellow'',
            confidence = 1, has_recent_hazards = False\<rparr>"
proof -
  have m: "make_prediction (synthesize_score 0 1 0) 1 0
     = \<lparr>risk_score = fl 4.33, risk_level = ''Medium'', flag_color = ''yellow'',
        confidence = 1, has_recent_hazards = False\<rparr>"
    by code_simp
  from predict_risk_score_InrI [OF empty_features example_model_output]
  show ?thesis unfolding m .
qed

lemma risk_score_make_prediction:
  "risk_score (make_prediction s c b) = np_round2 s"
  by (simp add: make_prediction_def Let_def)

text \<open>
  Claim C1. For every predicted level, every confidence and every recency boost (so for
  the levels 0, 1, 2 and boosts at least 0), the synthesized score is
  \<open>base_score + confidence_adjustment + recency_boost\<close>, the float sum of the source,
  clamped to the interval from 0 to 10, with
  \<open>confidence_adjustment = (confidence - 0.5) * 2\<close>; it lies between 0 and 10, and so
  does the \<open>risk_score\<close> that \<open>predict_risk_score\<close> returns, which is this score
  rounded to two decimals.
\<close>

theorem risk_score_clamped:
  "synthesize_score l c b =
     (if fadd (fadd (base_score l) (fmul (fsub c 0.5) 2)) b < 0 then 0
      else if 10 < fadd (fadd (base_score l) (fmul (fsub c 0.5) 2)) b then 10
      else fadd (fadd (base_score l) (fmul (fsub c 0.5) 2)) b)
   \<and> confidence_adjustment c = fmul (fsub c 0.5) 2
   \<and> 0 \<le> synthesize_score l c b \<and> synthesize_score l c b \<le> 10
   \<and> (\<forall>r. predict_risk_score rf db clk name = Inr r \<longrightarrow>
         0 \<le> risk_score r \<and> risk_score r \<le> 10
         \<and> (\<exists>f b' l' p c'. calculate_spot_features db clk name = Inr (f, b')
               \<and> predict rf f = Inr l' \<and> predict_proba rf f = Inr p
               \<and> select_confidence l' p = Inr c'
               \<and> risk_score r = np_round2 (synthesize_score l' c' b')))"
proof -
  have two: "confidence_adjustment c = fmul (fsub c 0.5) 2"
    by (simp add: confidence_adjustment_def fl_exact)
  have one: "synthesize_score l c b =
     (if fadd (fadd (base_score l) (fmul (fsub c 0.5) 2)) b < 0 then 0
      else if 10 < fadd (fadd (base_score l) (fmul (fsub c 0.5) 2)) b then 10
      else fadd (fadd (base_score l) (fmul (fsub c 0.5) 2)) b)"
    unfolding synthesize_score_def np_clip_def Let_def two by simp
  have three: "0 \<le> synthesize_score l c b \<and> synthesize_score l c b \<le> 10"
    by (rule synthesize_score_range)
  have four: "\<forall>r. predict_risk_score rf db clk name = Inr r \<longrightarrow>
         0 \<le> risk_score r \<and> risk_score r \<le> 10
         \<and> (\<exists>f b' l' p c'. calculate_spot_features db clk name = Inr (f, b')
               \<and> predict rf f = Inr l' \<and> predict_proba rf f = Inr p
               \<and> select_confidence l' p = Inr c'
               \<and> risk_score r = np_round2 (synthesize_score l' c' b'))"
  proof (intro allI impI)
    fix r
    assume "predict_risk_score rf db clk name = Inr r"
    from predict_risk_score_InrD [OF this]
    obtain f b' l' p c' where
      f: "calculate_spot_features db clk name = Inr (f, b')"
      "predict rf f = Inr l'" "predict_proba rf f = Inr p" "select_confidence l' p = Inr c'"
      and r: "r = make_prediction (synthesize_score l' c' b') c' b'"
      by blast
    have rs: "risk_score r = np_round2 (synthesize_score l' c' b')"
      by (simp add: r risk_score_make_prediction)
    from synthesize_score_range [of l' c' b']
    have "0 \<le> np_round2 (synthesize_score l' c' b') \<and> np_round2 (synthesize_score l' c' b') \<le> 10"
      by (intro np_round2_range) simp_all
    then have "0 \<le> risk_score r" "risk_score r \<le> 10"
      by (simp_all add: rs)
    with f rs show "0 \<le> risk_score r \<and> risk_score r \<le> 10
         \<and> (\<exists>f b' l' p c'. calculate_spot_features db clk name = Inr (f, b')
               \<and> predict rf f = Inr l' \<and> predict_proba rf f = Inr p
               \<and> select_confidence l' p = Inr c'
               \<and> risk_score r = np_round2 (synthesize_score l' c' b'))"
      by blast
  qed
  from one two three four show ?thesis by blast
qed

theorem risk_score_clamped_witness:
  "synthesize_score 0 0 0 = fl 2.33
   \<and> synthesize_score 2 1 1000 = 10
   \<and> (\<exists>r. predict_risk_score example_model example_db example_clock (Str ''Hikkaduwa'') = Inr r
          \<and> risk_score r = fl 6.33 \<and> 0 \<le> risk_score r \<and> risk_score r \<le> 10)"
proof -
  have a: "synthesize_score 0 0 0 = fl 2.33"
    by code_simp
  have b: "synthesize_score 2 1 1000 = 10"
    by code_simp
  note ev = example_prediction
  from risk_score_clamped [of 0 0 0 example_model example_db example_clock "Str ''Hikkaduwa''"] ev
  have "0 \<le> risk_score \<lparr>risk_score = fl 6.33, risk_level = ''Medium'', flag_color = ''yellow'',
                     confidence = 1, has_recent_hazards = True\<rparr>
        \<and> risk_score \<lparr>risk_score = fl 6.33, risk_level = ''Medium'', flag_color = ''yellow'',
                     confidence = 1, has_recent_hazards = True\<rparr> \<le> 10"
    by blast
  with a b ev show ?thesis by simp
qed

text \<open>
  Claim C2. The base score \<open>(level + 1) * 3.33\<close> is the float 3.33 for level 0 and the
  float 6.66 for level 1, but for level 2 it is the float 9.99, below 10, and not the
  10.0 that the claim and the comment on that line of the source state.
\<close>

theorem base_score_levels:
  "base_score 0 = fl 3.33 \<and> base_score 1 = fl 6.66 \<and> base_score 2 = fl 9.99
   \<and> base_score 2 \<noteq> 10.0 \<and> base_score 2 < 10.0"
  by code_simp

text \<open>
  Claim C7. For a predicted level that is not negative and a probability vector that is
  not empty (every output of the classifier), no exception is raised: when the level
  would index outside the vector (level 2 with a vector of length 2) the confidence is
  the probability at index 0, otherwise it is the probability at the level's index.
\<close>

theorem select_confidence_guard:
  assumes "0 \<le> l" and "p \<noteq> []"
  shows "select_confidence l p = Inr (if int (length p) \<le> l then p ! 0 else p ! nat l)"
  using assms by (cases p) (auto simp: select_confidence_def py_index_def Let_def)

theorem select_confidence_guard_witness:
  "select_confidence 2 [0.7, 0.3] = Inr 0.7 \<and> select_confidence 1 [0.2, 0.5, 0.3] = Inr 0.5"
proof -
  have a: "select_confidence 2 [0.7, 0.3] = Inr 0.7"
    using select_confidence_guard [of 2 "[0.7, 0.3]"] by simp
  have b: "select_confidence 1 [0.2, 0.5, 0.3] = Inr 0.5"
    using select_confidence_guard [of 1 "[0.2, 0.5, 0.3]"] by simp
  from a b show ?thesis by simp
qed

subsection \<open>The feature extractor\<close>

lemma severity_weight:
  "(if doc_get h ''severity'' = Str ''high'' then acc + 2
    else if doc_get h ''severity'' = Str ''medium'' then acc + 1 else acc + 0.5)
   = acc + spec_hazard_weight h"
  by (simp add: doc_get_def py_get_def spec_hazard_weight_def split: option.splits)

lemma hazard_loop_sum:
  "hazard_loop hs acc = acc + sum_list (map spec_hazard_weight hs)"
proof (induction hs arbitrary: acc)
  case Nil
  show ?case by simp
next
  case (Cons h hs)
  have "hazard_loop (h # hs) acc = hazard_loop hs (acc + spec_hazard_weight h)"
    by (simp only: hazard_loop.simps severity_weight)
  also have "\<dots> = acc + spec_hazard_weight h + sum_list (map spec_hazard_weight hs)"
    by (rule Cons.IH)
  finally show ?case by simp
qed

lemma recent_hazard_query_eq:
  "recent_hazard_query spot_id y =
     (\<lambda>h. field_is ''surfSpot'' spot_id h
          \<and> (\<exists>t. map_of h ''reportDate'' = Some (Date t) \<and> y \<le> t)
          \<and> map_of h ''status'' \<noteq> Some (Str ''rejected''))"
  by (rule ext) (auto simp: recent_hazard_query_def split: option.splits bson.splits)

lemma recent_boost_found:
  assumes "find_one (field_is ''name'' spot_name) (surf_spots_collection db) = Some s"
    and "map_of s ''_id'' = Some spot_id"
  shows "recent_boost db clk spot_name =
           Inr (sum_list (map spec_hazard_weight
                  (filter (recent_hazard_query spot_id (now clk - 86400))
                     (hazard_reports_collection db))))"
proof -
  from assms(2) have ne: "s \<noteq> []" by auto
  show ?thesis
    using assms ne
    by (simp add: recent_boost_def Let_def py_getitem_def one_day_def hazard_loop_sum)
qed

lemma recent_boost_missing:
  assumes "find_one (field_is ''name'' spot_name) (surf_spots_collection db) = None"
  shows "recent_boost db clk spot_name = Inr 0"
  using assms by (simp add: recent_boost_def Let_def)

lemma calculate_spot_features_InrD:
  assumes "calculate_spot_features db clk spot_name = Inr (f, b)"
  shows "recent_boost db clk spot_name = Inr b
         \<and> total_incidents f =
             of_int (int (length (filter (field_is ''site'' spot_name) (incidents_collection db))))
               + b * 5
         \<and> incidents_per_year f =
             fl (of_int (int (length (filter (field_is ''site'' spot_name)
                                        (incidents_collection db)))) / 10)"
  using assms unfolding calculate_spot_features_def Let_def
  by (auto split: sum.splits)

lemma calculate_spot_features_cases:
  "calculate_spot_features db clk spot_name = Inl AttributeError
   \<or> (\<exists>e. recent_boost db clk spot_name = Inl e \<and> calculate_spot_features db clk spot_name = Inl e)
   \<or> (\<exists>f b. calculate_spot_features db clk spot_name = Inr (f, b))"
proof -
  have la: "lower_all ts = Inl e \<Longrightarrow> e = AttributeError" for ts e
  proof (induction ts)
    case Nil
    then show ?case by simp
  next
    case (Cons t ts)
    then show ?case by (cases t) (auto split: sum.splits)
  qed
  show ?thesis
    unfolding calculate_spot_features_def Let_def
    by (auto split: sum.splits dest: la)
qed

text \<open>
  Claim C6. For a location found in the registry and every collection of hazard reports,
  the recency boost is the sum, over the location's reports dated within the last 24
  hours whose status is not "rejected", of 2.0 for severity high, 1.0 for medium and
  0.5 otherwise; and the \<open>total_incidents\<close> feature is the raw count of the
  location's historical incidents plus five times the boost. One recent report of
  severity high and no other gives the boost 2 and ten more than the raw count.
\<close>

theorem recency_boost_and_total:
  assumes "find_one (field_is ''name'' spot_name) (surf_spots_collection db) = Some s"
    and "map_of s ''_id'' = Some spot_id"
  shows "recent_boost db clk spot_name =
           Inr (sum_list (map spec_hazard_weight
                  (filter (\<lambda>h. field_is ''surfSpot'' spot_id h
                               \<and> (\<exists>t. map_of h ''reportDate'' = Some (Date t) \<and> now clk - 86400 \<le> t)
                               \<and> map_of h ''status'' \<noteq> Some (Str ''rejected''))
                     (hazard_reports_collection db))))
         \<and> (\<forall>f b. calculate_spot_features db clk spot_name = Inr (f, b) \<longrightarrow>
               recent_boost db clk spot_name = Inr b
               \<and> total_incidents f =
                   of_int (int (length (filter (field_is ''site'' spot_name) (incidents_collection db))))
                     + b * 5)"
  using recent_boost_found [OF assms, of clk] calculate_spot_features_InrD [of db clk spot_name]
  by (simp add: recent_hazard_query_eq)

theorem recency_boost_and_total_witness:
  "find_one (field_is ''name'' (Str ''Hikkaduwa'')) (surf_spots_collection example_db)
     = Some [(''_id'', ObjectId 1), (''name'', Str ''Hikkaduwa'')]
   \<and> recent_boost example_db example_clock (Str ''Hikkaduwa'') = Inr 2
   \<and> length (filter (field_is ''site'' (Str ''Hikkaduwa'')) (incidents_collection example_db)) = 3
   \<and> (\<exists>f. calculate_spot_features example_db example_clock (Str ''Hikkaduwa'') = Inr (f, 2)
          \<and> total_incidents f = 3 + 10)"
proof -
  have found: "find_one (field_is ''name'' (Str ''Hikkaduwa'')) (surf_spots_collection example_db)
     = Some [(''_id'', ObjectId 1), (''name'', Str ''Hikkaduwa'')]"
    by (simp add: find_one_def field_is_def example_db_def)
  have ident: "map_of [(''_id'', ObjectId 1), (''name'', Str ''Hikkaduwa'')] ''_id'' = Some (ObjectId 1)"
    by simp
  have n: "length (filter (field_is ''site'' (Str ''Hikkaduwa'')) (incidents_collection example_db)) = 3"
    by (simp add: field_is_def example_db_def)
  note ev = example_features
  note T = recency_boost_and_total [OF found ident, of example_clock]
  from T have boost: "recent_boost example_db example_clock (Str ''Hikkaduwa'') = Inr 2"
    by (simp add: example_db_def example_clock_def field_is_def spec_hazard_weight_def)
  from T ev have "total_incidents \<lparr>total_incidents = 13, fatal_count = 1, severe_count = 0,
      moderate_count = 1, drowning_count = 1, reef_cut_count = 1, collision_count = 0,
      rip_current_count = 1, is_peak_season = 1, incidents_per_year = fl (3 / 10)\<rparr>
      = of_int (int (length (filter (field_is ''site'' (Str ''Hikkaduwa''))
          (incidents_collection example_db)))) + 2 * 5"
    by blast
  with n have "total_incidents \<lparr>total_incidents = 13, fatal_count = 1, severe_count = 0,
      moderate_count = 1, drowning_count = 1, reef_cut_count = 1, collision_count = 0,
      rip_current_count = 1, is_peak_season = 1, incidents_per_year = fl (3 / 10)\<rparr> = 3 + 10"
    by simp
  with found boost n ev show ?thesis by blast
qed

subsection \<open>A location missing from the registry\<close>

text \<open>
  Claim C3, as stated, fails: no branch of the source raises for a missing location. For
  a name with no record in the registry, \<open>predict_risk_score\<close> returns a prediction
  and the endpoint answers with status 200 and \<open>success = True\<close>.
\<close>

theorem unknown_location_is_scored:
  "find_one (field_is ''name'' (Str ''Nowhere'')) (surf_spots_collection empty_db) = None
   \<and> predict_risk_score example_model empty_db example_clock (Str ''Nowhere'')
       = Inr \<lparr>risk_score = fl 4.33, risk_level = ''Medium'', flag_color = ''yellow'',
              confidence = 1, has_recent_hazards = False\<rparr>
   \<and> predict_risk example_model empty_db example_clock ''Nowhere''
       = \<lparr>status = 200, success = True,
          data = Some \<lparr>risk_score = fl 4.33, risk_level = ''Medium'', flag_color = ''yellow'',
                       confidence = 1, has_recent_hazards = False\<rparr>,
          message = None\<rparr>"
proof -
  have n: "find_one (field_is ''name'' (Str ''Nowhere'')) (surf_spots_collection empty_db) = None"
    by (simp add: find_one_def empty_db_def)
  from n empty_prediction show ?thesis by (simp add: predict_risk_def)
qed

text \<open>
  Claim C3, amended. When the location identifier has no matching record in the
  registry, scoring does not fail on that account: the recency boost is 0, the features
  are computed unless an incident's type is not a string, \<open>predict_risk_score\<close>
  returns the prediction synthesized from the classifier's output with boost 0, with
  \<open>has_recent_hazards\<close> false, and the endpoint returns it as a success.
\<close>

theorem unknown_location_boost_zero:
  assumes "find_one (field_is ''name'' spot_name) (surf_spots_collection db) = None"
  shows "recent_boost db clk spot_name = Inr 0
         \<and> (calculate_spot_features db clk spot_name = Inl AttributeError
              \<or> (\<exists>f. calculate_spot_features db clk spot_name = Inr (f, 0)))
         \<and> (\<forall>f l p c. calculate_spot_features db clk spot_name = Inr (f, 0) \<longrightarrow>
                predict rf f = Inr l \<longrightarrow> predict_proba rf f = Inr p \<longrightarrow>
                select_confidence l p = Inr c \<longrightarrow>
                predict_risk_score rf db clk spot_name
                  = Inr (make_prediction (synthesize_score l c 0) c 0))
         \<and> (\<forall>r. predict_risk_score rf db clk spot_name = Inr r \<longrightarrow> \<not> has_recent_hazards r)
         \<and> (\<forall>name r. spot_name = Str name \<longrightarrow>
                predict_risk_score rf db clk spot_name = Inr r \<longrightarrow>
                predict_risk rf db clk name
                  = \<lparr>status = 200, success = True, data = Some r, message = None\<rparr>)"
proof -
  have one: "recent_boost db clk spot_name = Inr 0"
    using assms by (rule recent_boost_missing)
  have two: "calculate_spot_features db clk spot_name = Inl AttributeError
              \<or> (\<exists>f. calculate_spot_features db clk spot_name = Inr (f, 0))"
    using calculate_spot_features_cases [of db clk spot_name]
      calculate_spot_features_InrD [of db clk spot_name] one
    by auto
  have three: "\<forall>f l p c. calculate_spot_features db clk spot_name = Inr (f, 0) \<longrightarrow>
                predict rf f = Inr l \<longrightarrow> predict_proba rf f = Inr p \<longrightarrow>
                select_confidence l p = Inr c \<longrightarrow>
                predict_risk_score rf db clk spot_name
                  = Inr (make_prediction (synthesize_score l c 0) c 0)"
    by (simp add: predict_risk_score_def)
  have four: "\<forall>r. predict_risk_score rf db clk spot_name = Inr r \<longrightarrow> \<not> has_recent_hazards r"
  proof (intro allI impI)
    fix r
    assume "predict_risk_score rf db clk spot_name = Inr r"
    from predict_risk_score_InrD [OF this]
    obtain f b l p c where
      f: "calculate_spot_features db clk spot_name = Inr (f, b)"
      and r: "r = make_prediction (synthesize_score l c b) c b"
      by blast
    from calculate_spot_features_InrD [OF f] one have "b = 0" by simp
    then show "\<not> has_recent_hazards r" by (simp add: r make_prediction_def Let_def)
  qed
  have five: "\<forall>name r. spot_name = Str name \<longrightarrow>
                predict_risk_score rf db clk spot_name = Inr r \<longrightarrow>
                predict_risk rf db clk name
                  = \<lparr>status = 200, success = True, data = Some r, message = None\<rparr>"
    by (simp add: predict_risk_def)
  from one two three four five show ?thesis by blast
qed

theorem unknown_location_boost_zero_witness:
  "find_one (field_is ''name'' (Str ''Nowhere'')) (surf_spots_collection empty_db) = None
   \<and> recent_boost empty_db example_clock (Str ''Nowhere'') = Inr 0
   \<and> (\<exists>f. calculate_spot_features empty_db example_clock (Str ''Nowhere'') = Inr (f, 0))"
proof -
  have n: "find_one (field_is ''name'' (Str ''Nowhere'')) (surf_spots_collection empty_db) = None"
    by (simp add: find_one_def empty_db_def)
  have ok: "calculate_spot_features empty_db example_clock (Str ''Nowhere'') \<noteq> Inl AttributeError"
    by (simp add: empty_features)
  from unknown_location_boost_zero [OF n, of example_clock example_model] ok n
  show ?thesis by blast
qed

subsection \<open>The batch updater\<close>

lemma update_spot_name:
  "update_spot rf w clk db spot = Inr (db', line) \<Longrightarrow> report_name line = doc_get spot ''name''"
  unfolding update_spot_def
  by (auto simp: py_getitem_def doc_get_def py_get_def split: sum.splits option.splits)

lemma handle_error_named:
  "map_of spot ''name'' \<noteq> None \<Longrightarrow>
   handle_error spot e = Inr (ErrorUpdating (doc_get spot ''name'') e)"
  by (auto simp: handle_error_def py_getitem_def doc_get_def py_get_def split: option.splits)

lemma update_loop_failed_spot:
  "map_of spot ''name'' \<noteq> None \<Longrightarrow> update_spot rf w clk db spot = Inl e \<Longrightarrow>
   update_loop rf w clk (spot # spots) db acc
     = update_loop rf w clk spots db (acc @ [ErrorUpdating (doc_get spot ''name'') e])"
  by (simp add: handle_error_named)

lemma update_loop_returns:
  "\<forall>spot \<in> set spots. map_of spot ''name'' \<noteq> None \<Longrightarrow>
   \<exists>db' out. update_loop rf w clk spots db acc = Inr (db', acc @ out)
      \<and> map report_name out = map (\<lambda>s. doc_get s ''name'') spots"
proof (induction spots arbitrary: db acc)
  case Nil
  show ?case by simp
next
  case (Cons spot spots)
  then have named: "map_of spot ''name'' \<noteq> None"
    and rest: "\<forall>s \<in> set spots. map_of s ''name'' \<noteq> None"
    by simp_all
  show ?case
  proof (cases "update_spot rf w clk db spot")
    case (Inl e)
    from Cons.IH [OF rest, of db "acc @ [ErrorUpdating (doc_get spot ''name'') e]"]
    obtain db' out where
      "update_loop rf w clk spots db (acc @ [ErrorUpdating (doc_get spot ''name'') e])
         = Inr (db', (acc @ [ErrorUpdating (doc_get spot ''name'') e]) @ out)"
      "map report_name out = map (\<lambda>s. doc_get s ''name'') spots"
      by blast
    then have "update_loop rf w clk (spot # spots) db acc
         = Inr (db', acc @ (ErrorUpdating (doc_get spot ''name'') e # out))
       \<and> map report_name (ErrorUpdating (doc_get spot ''name'') e # out)
           = map (\<lambda>s. doc_get s ''name'') (spot # spots)"
      using update_loop_failed_spot [OF named Inl] by simp
    then show ?thesis by blast
  next
    case (Inr res)
    obtain d line where res: "res = (d, line)" by (cases res)
    from Inr res have ok: "update_spot rf w clk db spot = Inr (d, line)" by simp
    from Cons.IH [OF rest, of d "acc @ [line]"]
    obtain db' out where
      "update_loop rf w clk spots d (acc @ [line]) = Inr (db', (acc @ [line]) @ out)"
      "map report_name out = map (\<lambda>s. doc_get s ''name'') spots"
      by blast
    then have "update_loop rf w clk (spot # spots) db acc = Inr (db', acc @ (line # out))
       \<and> map report_name (line # out) = map (\<lambda>s. doc_get s ''name'') (spot # spots)"
      using ok update_spot_name [OF ok] by simp
    then show ?thesis by blast
  qed
qed

lemma update_loop_append:
  "update_loop rf w clk (pre @ post) db acc =
     (case update_loop rf w clk pre db acc of
        Inl e \<Rightarrow> Inl e
      | Inr (d, out) \<Rightarrow> update_loop rf w clk post d out)"
  by (induction pre arbitrary: db acc) (auto split: sum.splits)

text \<open>
  Registry documents that carry a name. For every such sequence the batch update
  returns normally with one printed line per location, in order. If scoring or
  persisting a location raises, the line of that location reports the error, and the
  loop goes on from the same database over all the remaining locations.
\<close>

theorem batch_update_named_documents:
  assumes "\<forall>s \<in> set (pre @ spot # post). map_of s ''name'' \<noteq> None"
  shows "\<exists>d out_pre line d' out_post.
           update_loop rf w clk pre db [] = Inr (d, out_pre)
         \<and> update_loop rf w clk (pre @ spot # post) db [] = Inr (d', out_pre @ line # out_post)
         \<and> map report_name (out_pre @ line # out_post)
             = map (\<lambda>s. doc_get s ''name'') (pre @ spot # post)
         \<and> length out_pre = length pre \<and> length out_post = length post
         \<and> (\<forall>e. update_spot rf w clk d spot = Inl e \<longrightarrow>
               line = ErrorUpdating (doc_get spot ''name'') e
               \<and> update_loop rf w clk post d (out_pre @ [line])
                   = Inr (d', out_pre @ line # out_post))
         \<and> (surf_spots_collection db = pre @ spot # post \<longrightarrow>
               update_all_risk_scores rf w clk db = Inr (d', out_pre @ line # out_post))"
proof -
  from assms have pre: "\<forall>s \<in> set pre. map_of s ''name'' \<noteq> None"
    and named: "map_of spot ''name'' \<noteq> None"
    and post: "\<forall>s \<in> set post. map_of s ''name'' \<noteq> None"
    by simp_all
  from update_loop_returns [OF pre, of rf w clk db "[]"]
  obtain d out_pre where
    p1: "update_loop rf w clk pre db [] = Inr (d, out_pre)"
    and p2: "map report_name out_pre = map (\<lambda>s. doc_get s ''name'') pre"
    by auto
  from p2 have lp: "length out_pre = length pre"
    by (metis length_map)
  have split: "update_loop rf w clk (pre @ spot # post) db []
                 = update_loop rf w clk (spot # post) d out_pre"
    by (simp add: update_loop_append p1)
  have step: "\<exists>line d1. update_loop rf w clk (spot # post) d out_pre
                   = update_loop rf w clk post d1 (out_pre @ [line])
               \<and> report_name line = doc_get spot ''name''
               \<and> (\<forall>e. update_spot rf w clk d spot = Inl e \<longrightarrow>
                     line = ErrorUpdating (doc_get spot ''name'') e \<and> d1 = d)"
  proof (cases "update_spot rf w clk d spot")
    case (Inl e)
    with update_loop_failed_spot [OF named Inl, of post out_pre] show ?thesis
      by auto
  next
    case (Inr res)
    obtain d1 line where res: "res = (d1, line)" by (cases res)
    from Inr res have ok: "update_spot rf w clk d spot = Inr (d1, line)" by simp
    from ok update_spot_name [OF ok] show ?thesis by auto
  qed
  then obtain line d1 where
    s1: "update_loop rf w clk (spot # post) d out_pre
           = update_loop rf w clk post d1 (out_pre @ [line])"
    and s2: "report_name line = doc_get spot ''name''"
    and s3: "\<forall>e. update_spot rf w clk d spot = Inl e \<longrightarrow>
               line = ErrorUpdating (doc_get spot ''name'') e \<and> d1 = d"
    by blast
  from update_loop_returns [OF post, of rf w clk d1 "out_pre @ [line]"]
  obtain d' out_post where
    q1: "update_loop rf w clk post d1 (out_pre @ [line]) = Inr (d', (out_pre @ [line]) @ out_post)"
    and q2: "map report_name out_post = map (\<lambda>s. doc_get s ''name'') post"
    by blast
  from q2 have lq: "length out_post = length post"
    by (metis length_map)
  have whole: "update_loop rf w clk (pre @ spot # post) db []
                 = Inr (d', out_pre @ line # out_post)"
    using split s1 q1 by simp
  have names: "map report_name (out_pre @ line # out_post)
             = map (\<lambda>s. doc_get s ''name'') (pre @ spot # post)"
    using p2 s2 q2 by simp
  have failed: "\<forall>e. update_spot rf w clk d spot = Inl e \<longrightarrow>
               line = ErrorUpdating (doc_get spot ''name'') e
               \<and> update_loop rf w clk post d (out_pre @ [line])
                   = Inr (d', out_pre @ line # out_post)"
    using s3 q1 by auto
  have batch: "surf_spots_collection db = pre @ spot # post \<longrightarrow>
               update_all_risk_scores rf w clk db = Inr (d', out_pre @ line # out_post)"
    using whole by (simp add: update_all_risk_scores_def)
  from p1 whole names lp lq failed batch show ?thesis by blast
qed

theorem batch_update_named_documents_witness:
  "update_spot example_model flaky_write example_clock example_db
       [(''_id'', ObjectId 1), (''name'', Str ''Hikkaduwa'')]
     = Inl (DatabaseError ''write failed'')
   \<and> (\<exists>d' out_post.
         update_all_risk_scores example_model flaky_write example_clock example_db
           = Inr (d', ErrorUpdating (Str ''Hikkaduwa'') (DatabaseError ''write failed'') # out_post)
         \<and> length out_post = 1
         \<and> map report_name out_post = [Str ''Matara''])"
proof -
  let ?a = "[(''_id'', ObjectId 1), (''name'', Str ''Hikkaduwa'')]"
  let ?b = "[(''_id'', ObjectId 2), (''name'', Str ''Matara'')]"
  have hyp: "\<forall>s \<in> set ([] @ ?a # [?b]). map_of s ''name'' \<noteq> None"
    by simp
  have spots: "surf_spots_collection example_db = [] @ ?a # [?b]"
    by (simp add: example_db_def)
  have ev: "update_spot example_model flaky_write example_clock example_db ?a
              = Inl (DatabaseError ''write failed'')"
    by (simp add: update_spot_def py_getitem_def example_prediction flaky_write_def)
  from batch_update_named_documents [OF hyp, of example_model flaky_write example_clock example_db]
  obtain d out_pre line d' out_post where
    a: "update_loop example_model flaky_write example_clock [] example_db [] = Inr (d, out_pre)"
    and n: "map report_name (out_pre @ line # out_post)
             = map (\<lambda>s. doc_get s ''name'') ([] @ ?a # [?b])"
    and l: "length out_post = length [?b]"
    and f: "\<forall>e. update_spot example_model flaky_write example_clock d ?a = Inl e \<longrightarrow>
               line = ErrorUpdating (doc_get ?a ''name'') e"
    and u: "surf_spots_collection example_db = [] @ ?a # [?b] \<longrightarrow>
               update_all_risk_scores example_model flaky_write example_clock example_db
                 = Inr (d', out_pre @ line # out_post)"
    by blast
  from a have d: "d = example_db" and o: "out_pre = []" by simp_all
  from f ev d have line: "line = ErrorUpdating (Str ''Hikkaduwa'') (DatabaseError ''write failed'')"
    by (simp add: doc_get_def py_get_def)
  from u spots o line have res:
    "update_all_risk_scores example_model flaky_write example_clock example_db
       = Inr (d', ErrorUpdating (Str ''Hikkaduwa'') (DatabaseError ''write failed'') # out_post)"
    by simp
  from n o have "map report_name out_post = [Str ''Matara'']"
    by (simp add: doc_get_def py_get_def)
  with ev res l show ?thesis by simp
qed

text \<open>
  Claim C9. The claim fails on a registry document without a \<open>name\<close> field: reading
  the name raises \<open>KeyError\<close> inside the \<open>try\<close>, the handler catches it and reads the
  name again to print it, and that second \<open>KeyError\<close> leaves \<open>update_all_risk_scores\<close>.
  The loop stops there, so the named location after it is never updated.
\<close>

theorem batch_update_nameless_document:
  "update_spot example_model update_one example_clock nameless_db
       [(''_id'', ObjectId 1), (''location'', Str ''Southern Province'')] = Inl KeyError
   \<and> handle_error [(''_id'', ObjectId 1), (''location'', Str ''Southern Province'')] KeyError
       = Inl KeyError
   \<and> update_all_risk_scores example_model update_one example_clock nameless_db = Inl KeyError"
  by (simp add: update_all_risk_scores_def nameless_db_def update_spot_def handle_error_def
      py_getitem_def)

end
